theory Spec2Isabelle
  imports Main
begin

section \<open>Strings and values of the host language\<close>

text \<open>
  The program is \<^verbatim>\<open>packages/jest-environment-vite/src/index.js\<close>. A JavaScript
  string is modelled as a \<^typ>\<open>string\<close> (a list of characters). Every operation the
  program applies to strings (concatenation in template literals, \<^verbatim>\<open>join\<close>, and
  \<^verbatim>\<open>startsWith\<close> against an ASCII literal) acts on the sequence of characters only.
\<close>

type_synonym js_string = string

text \<open>
  Errors. \<open>TypeError\<close> is what the JavaScript runtime raises when a property of
  \<^verbatim>\<open>undefined\<close> is read, \<^verbatim>\<open>undefined\<close> is spread, or a method of
  \<^verbatim>\<open>undefined\<close> is called. \<open>Thrown x\<close> is an exception \<open>x\<close> raised inside a
  collaborator (the transpiler, the driver, the coverage library, the reporter, the server,
  the inherited environment); the program has no \<^verbatim>\<open>try\<close>/\<^verbatim>\<open>catch\<close>, so it
  propagates unchanged. \<open>InvalidRequest\<close> and \<open>EnvironmentClosedError\<close> are the two
  error names of the specification that belong to the program itself rather than to a
  collaborator; the source contains no \<^verbatim>\<open>throw\<close> statement, and no equation below
  produces them.
\<close>

datatype 'x error = TypeError | InvalidRequest | EnvironmentClosedError | Thrown 'x

text \<open>
  The argument \<^verbatim>\<open>data\<close> of \<^verbatim>\<open>render\<close>: an object with the properties
  \<^verbatim>\<open>code\<close> (a string) and \<^verbatim>\<open>imports\<close> (an array of strings). \<open>None\<close> stands
  for a property that is absent (reading it gives \<^verbatim>\<open>undefined\<close>).
\<close>

record render_request =
  data_code :: "js_string option"
  data_imports :: "js_string list option"

section \<open>The script synthesizer (lines 85 to 103 of \<^verbatim>\<open>render\<close>)\<close>

text \<open>\<^verbatim>\<open>String.prototype.startsWith(searchString)\<close> at position 0.\<close>

definition startsWith :: "js_string \<Rightarrow> js_string \<Rightarrow> bool" where
  "startsWith s searchString = (take (length searchString) s = searchString)"

text \<open>\<^verbatim>\<open>Array.prototype.join(separator)\<close> on an array of strings.\<close>

fun join :: "js_string \<Rightarrow> js_string list \<Rightarrow> js_string" where
  "join sep [] = []"
| "join sep [x] = x"
| "join sep (x # y # ys) = x @ sep @ join sep (y # ys)"

definition newline :: js_string where
  "newline = [CHR 0x0A]"

definition line_open :: js_string where
  \<open>line_open = ''async () => {''\<close>

definition line_react :: js_string where
  \<open>line_react = ''const React = (await import("/node_modules/react.js")).default;''\<close>

definition line_react_dom :: js_string where
  \<open>line_react_dom = ''const ReactDOM = (await import("/node_modules/react-dom.js")).default;''\<close>

definition line_container :: js_string where
  \<open>line_container = ''const container = document.createElement("container");''\<close>

definition line_append :: js_string where
  \<open>line_append = ''document.body.appendChild(container);''\<close>

definition line_render :: js_string where
  \<open>line_render = ''ReactDOM.render(element, container, () => callback({container: container, coverage: window.__coverage__}));''\<close>

definition line_close :: js_string where
  \<open>line_close = ''}''\<close>

definition thunk_prefix :: js_string where
  \<open>thunk_prefix = ''() =>''\<close>

text \<open>The two branches of the \<^verbatim>\<open>if\<close> at lines 94 to 98.\<close>

definition element_invoked :: "js_string \<Rightarrow> js_string" where
  \<open>element_invoked c = ''const element = ('' @ c @ '')();''\<close>

definition element_direct :: "js_string \<Rightarrow> js_string" where
  \<open>element_direct c = ''const element = '' @ c @ '';''\<close>

definition element_line :: "js_string \<Rightarrow> js_string" where
  "element_line c = (if startsWith c thunk_prefix then element_invoked c else element_direct c)"

text \<open>
  The array \<^verbatim>\<open>lines\<close> after the two \<^verbatim>\<open>push\<close> calls. The array literal is
  evaluated first: spreading an absent \<^verbatim>\<open>data.imports\<close> raises a TypeError. Then
  \<^verbatim>\<open>data.code.startsWith\<close> on an absent \<^verbatim>\<open>data.code\<close> raises a TypeError.
\<close>

definition script_lines :: "render_request \<Rightarrow> 'x error + js_string list" where
  "script_lines data =
     (case data_imports data of
        None \<Rightarrow> Inl TypeError
      | Some imps \<Rightarrow>
          (case data_code data of
             None \<Rightarrow> Inl TypeError
           | Some c \<Rightarrow>
               Inr ([line_open, line_react, line_react_dom] @ imps @
                    [line_container, line_append] @
                    [element_line c] @ [line_render] @ [line_close])))"

text \<open>The text \<^verbatim>\<open>lines.join("\n")\<close> handed to \<^verbatim>\<open>transformSync\<close>.\<close>

definition synthesize :: "render_request \<Rightarrow> 'x error + js_string" where
  "synthesize data =
     (case script_lines data of
        Inl e \<Rightarrow> Inl e
      | Inr ls \<Rightarrow> Inr (join newline ls))"

section \<open>Collaborators, environment state and observable calls\<close>

text \<open>
  Everything the program calls but does not define is a collaborator, and its behaviour at
  the time of a call is a parameter: the inherited \<^verbatim>\<open>SeleniumEnvironment\<close>
  (\<^verbatim>\<open>super.setup\<close>, \<^verbatim>\<open>super.teardown\<close>), \<^verbatim>\<open>require("vite-server")\<close>,
  \<^verbatim>\<open>stoppable\<close>, \<^verbatim>\<open>istanbul-lib-coverage\<close>, \<^verbatim>\<open>istanbul-api\<close>,
  \<^verbatim>\<open>transformSync\<close> of \<^verbatim>\<open>@babel/core\<close> and the driver's
  \<^verbatim>\<open>executeAsyncScript\<close>. A call that returns a value answers \<open>Inr\<close> of it or
  \<open>Inl\<close> of the exception it throws; a call made for its effect answers \<open>None\<close> or
  \<open>Some\<close> exception. The inherited operations own the property
  \<^verbatim>\<open>this.global.driver\<close>: they answer with its value after the call. The coverage
  map is mutated in place by \<^verbatim>\<open>merge\<close>, which answers with the map's state after
  the call also when it throws.
\<close>

record ('drv, 'srv, 'cm, 'cont, 'snap, 'x) collaborators =
  superSetup :: "'drv option \<Rightarrow> 'x option \<times> 'drv option"
  requireServer :: "'x + 'srv"
  stoppable :: "'srv \<Rightarrow> 'x option"
  createCoverageMap :: "'x + 'cm"
  superTeardown :: "'drv option \<Rightarrow> 'x option \<times> 'drv option"
  createReporter :: "'x option"
  reporterAddAll :: "js_string list \<Rightarrow> 'x option"
  reporterWrite :: "'cm option \<Rightarrow> 'x option"
  serverStop :: "'srv \<Rightarrow> 'x option"
  transformSync :: "js_string \<Rightarrow> 'x + js_string"
  executeAsyncScript :: "'drv \<Rightarrow> js_string \<Rightarrow> 'x + ('cont \<times> 'snap)"
  coverageMerge :: "'cm \<Rightarrow> 'snap \<Rightarrow> 'x option \<times> 'cm"

text \<open>
  The calls made to collaborators, in the order they are made. \<open>ExecuteAsyncScript d code\<close>
  is \<^verbatim>\<open>driver.executeAsyncScript(script, code)\<close> on the driver \<open>d\<close>; its first
  argument is the constant function \<^verbatim>\<open>script\<close> of lines 108 to 112.
\<close>

datatype ('drv, 'srv, 'cm, 'snap) event =
    SuperSetup "'drv option"
  | RequireServer
  | Stoppable 'srv
  | CreateCoverageMap
  | SuperTeardown "'drv option"
  | CreateReporter
  | ReporterAddAll "js_string list"
  | ReporterWrite "'cm option"
  | ServerStop 'srv
  | TransformSync js_string
  | ExecuteAsyncScript 'drv js_string
  | CoverageMerge 'cm 'snap

text \<open>
  The fields of a \<^verbatim>\<open>ViteEnvironment\<close> the program reads or writes. A field is
  \<open>None\<close> while it is \<^verbatim>\<open>undefined\<close>. The class keeps no field that records
  whether \<^verbatim>\<open>setup\<close> or \<^verbatim>\<open>teardown\<close> has run.
\<close>

record ('drv, 'srv, 'cm, 'cont) vite_environment =
  global_driver :: "'drv option"
  server :: "'srv option"
  coverageMap :: "'cm option"
  containers :: "'cont list option"

definition report_formats :: "js_string list" where
  "report_formats = [''json'', ''text'', ''lcov'']"

section \<open>The exported function \<^verbatim>\<open>render\<close> (lines 78 to 121)\<close>

text \<open>
  The result, the coverage map after the call (it is mutated in place), and the calls made.
  An exception leaves the function at the statement that raised it.
\<close>

definition render ::
  "('drv, 'srv, 'cm, 'cont, 'snap, 'x) collaborators \<Rightarrow> 'drv option \<Rightarrow> 'cm option \<Rightarrow>
   render_request \<Rightarrow> ('x error + 'cont) \<times> 'cm option \<times> ('drv, 'srv, 'cm, 'snap) event list" where
  "render w driver cmap data =
     (case synthesize data of
        Inl e \<Rightarrow> (Inl e, cmap, [])
      | Inr body \<Rightarrow>
          (case transformSync w body of
             Inl x \<Rightarrow> (Inl (Thrown x), cmap, [TransformSync body])
           | Inr code \<Rightarrow>
               (case driver of
                  None \<Rightarrow> (Inl TypeError, cmap, [TransformSync body])
                | Some d \<Rightarrow>
                    (case executeAsyncScript w d code of
                       Inl x \<Rightarrow>
                         (Inl (Thrown x), cmap, [TransformSync body, ExecuteAsyncScript d code])
                     | Inr (container, coverage) \<Rightarrow>
                         (case cmap of
                            None \<Rightarrow>
                              (Inl TypeError, cmap,
                               [TransformSync body, ExecuteAsyncScript d code])
                          | Some cm \<Rightarrow>
                              (case coverageMerge w cm coverage of
                                 (Some x, cm') \<Rightarrow>
                                   (Inl (Thrown x), Some cm',
                                    [TransformSync body, ExecuteAsyncScript d code,
                                     CoverageMerge cm coverage])
                               | (None, cm') \<Rightarrow>
                                   (Inr container, Some cm',
                                    [TransformSync body, ExecuteAsyncScript d code,
                                     CoverageMerge cm coverage])))))))"

section \<open>The class \<^verbatim>\<open>ViteEnvironment\<close> (lines 8 to 37)\<close>

text \<open>
  \<^verbatim>\<open>this.global.render\<close>, installed by the constructor: it reads
  \<^verbatim>\<open>this.global.driver\<close> and \<^verbatim>\<open>this.coverageMap\<close> when it is called.
\<close>

definition global_render ::
  "('drv, 'srv, 'cm, 'cont, 'snap, 'x) collaborators \<Rightarrow> ('drv, 'srv, 'cm, 'cont) vite_environment \<Rightarrow>
   render_request \<Rightarrow>
   ('x error + 'cont) \<times> ('drv, 'srv, 'cm, 'cont) vite_environment \<times> ('drv, 'srv, 'cm, 'snap) event list" where
  "global_render w env data =
     (case render w (global_driver env) (coverageMap env) data of
        (r, cm', t) \<Rightarrow> (r, env\<lparr>coverageMap := cm'\<rparr>, t))"

definition setup_env ::
  "('drv, 'srv, 'cm, 'cont, 'snap, 'x) collaborators \<Rightarrow> ('drv, 'srv, 'cm, 'cont) vite_environment \<Rightarrow>
   ('x error + unit) \<times> ('drv, 'srv, 'cm, 'cont) vite_environment \<times> ('drv, 'srv, 'cm, 'snap) event list" where
  "setup_env w env =
     (case superSetup w (global_driver env) of
        (Some x, d') \<Rightarrow>
          (Inl (Thrown x), env\<lparr>global_driver := d'\<rparr>, [SuperSetup (global_driver env)])
      | (None, d') \<Rightarrow>
          (case requireServer w of
             Inl x \<Rightarrow>
               (Inl (Thrown x), env\<lparr>global_driver := d'\<rparr>,
                [SuperSetup (global_driver env), RequireServer])
           | Inr srv \<Rightarrow>
               (case stoppable w srv of
                  Some x \<Rightarrow>
                    (Inl (Thrown x), env\<lparr>global_driver := d', server := Some srv\<rparr>,
                     [SuperSetup (global_driver env), RequireServer, Stoppable srv])
                | None \<Rightarrow>
                    (case createCoverageMap w of
                       Inl x \<Rightarrow>
                         (Inl (Thrown x), env\<lparr>global_driver := d', server := Some srv\<rparr>,
                          [SuperSetup (global_driver env), RequireServer, Stoppable srv,
                           CreateCoverageMap])
                     | Inr cm \<Rightarrow>
                         (Inr (),
                          env\<lparr>global_driver := d', server := Some srv,
                              coverageMap := Some cm, containers := Some []\<rparr>,
                          [SuperSetup (global_driver env), RequireServer, Stoppable srv,
                           CreateCoverageMap])))))"

definition teardown ::
  "('drv, 'srv, 'cm, 'cont, 'snap, 'x) collaborators \<Rightarrow> ('drv, 'srv, 'cm, 'cont) vite_environment \<Rightarrow>
   ('x error + unit) \<times> ('drv, 'srv, 'cm, 'cont) vite_environment \<times> ('drv, 'srv, 'cm, 'snap) event list" where
  "teardown w env =
     (case superTeardown w (global_driver env) of
        (Some x, d') \<Rightarrow>
          (Inl (Thrown x), env\<lparr>global_driver := d'\<rparr>, [SuperTeardown (global_driver env)])
      | (None, d') \<Rightarrow>
          (case createReporter w of
             Some x \<Rightarrow>
               (Inl (Thrown x), env\<lparr>global_driver := d'\<rparr>,
                [SuperTeardown (global_driver env), CreateReporter])
           | None \<Rightarrow>
               (case reporterAddAll w report_formats of
                  Some x \<Rightarrow>
                    (Inl (Thrown x), env\<lparr>global_driver := d'\<rparr>,
                     [SuperTeardown (global_driver env), CreateReporter,
                      ReporterAddAll report_formats])
                | None \<Rightarrow>
                    (case reporterWrite w (coverageMap env) of
                       Some x \<Rightarrow>
                         (Inl (Thrown x), env\<lparr>global_driver := d'\<rparr>,
                          [SuperTeardown (global_driver env), CreateReporter,
                           ReporterAddAll report_formats, ReporterWrite (coverageMap env)])
                     | None \<Rightarrow>
                         (case server env of
                            None \<Rightarrow>
                              (Inl TypeError, env\<lparr>global_driver := d'\<rparr>,
                               [SuperTeardown (global_driver env), CreateReporter,
                                ReporterAddAll report_formats, ReporterWrite (coverageMap env)])
                          | Some srv \<Rightarrow>
                              (case serverStop w srv of
                                 Some x \<Rightarrow>
                                   (Inl (Thrown x), env\<lparr>global_driver := d'\<rparr>,
                                    [SuperTeardown (global_driver env), CreateReporter,
                                     ReporterAddAll report_formats,
                                     ReporterWrite (coverageMap env), ServerStop srv])
                               | None \<Rightarrow>
                                   (Inr (), env\<lparr>global_driver := d'\<rparr>,
                                    [SuperTeardown (global_driver env), CreateReporter,
                                     ReporterAddAll report_formats,
                                     ReporterWrite (coverageMap env), ServerStop srv])))))))"

text \<open>
  A sequence of calls of \<^verbatim>\<open>this.global.render\<close> on one environment, each with the
  collaborators' behaviour at its time, whatever the outcome of each; and a whole life of
  an environment: \<^verbatim>\<open>setup\<close>, such a sequence, \<^verbatim>\<open>teardown\<close>.
\<close>

fun render_all ::
  "(('drv, 'srv, 'cm, 'cont, 'snap, 'x) collaborators \<times> render_request) list \<Rightarrow>
   ('drv, 'srv, 'cm, 'cont) vite_environment \<Rightarrow>
   ('drv, 'srv, 'cm, 'cont) vite_environment \<times> ('drv, 'srv, 'cm, 'snap) event list" where
  "render_all [] env = (env, [])"
| "render_all ((w, data) # calls) env =
     (case global_render w env data of
        (r, env', t) \<Rightarrow>
          (case render_all calls env' of (env'', t') \<Rightarrow> (env'', t @ t')))"

definition lifecycle ::
  "('drv, 'srv, 'cm, 'cont, 'snap, 'x) collaborators \<Rightarrow>
   (('drv, 'srv, 'cm, 'cont, 'snap, 'x) collaborators \<times> render_request) list \<Rightarrow>
   ('drv, 'srv, 'cm, 'cont, 'snap, 'x) collaborators \<Rightarrow>
   ('drv, 'srv, 'cm, 'cont) vite_environment \<Rightarrow>
   ('x error + unit) \<times> ('drv, 'srv, 'cm, 'cont) vite_environment \<times> ('drv, 'srv, 'cm, 'snap) event list" where
  "lifecycle ws calls wt env0 =
     (case setup_env ws env0 of
        (r1, env1, t1) \<Rightarrow>
          (case render_all calls env1 of
             (env2, t2) \<Rightarrow>
               (case teardown wt env2 of
                  (r3, env3, t3) \<Rightarrow> (r3, env3, t1 @ t2 @ t3))))"

text \<open>The environment object before \<^verbatim>\<open>setup\<close>: every field is undefined.\<close>

definition new_environment :: "('drv, 'srv, 'cm, 'cont) vite_environment" where
  "new_environment =
     \<lparr>global_driver = None, server = None, coverageMap = None, containers = None\<rparr>"

fun is_write :: "('drv, 'srv, 'cm, 'snap) event \<Rightarrow> bool" where
  "is_write (ReporterWrite m) = True"
| "is_write e = False"

fun is_execute :: "('drv, 'srv, 'cm, 'snap) event \<Rightarrow> bool" where
  "is_execute (ExecuteAsyncScript d c) = True"
| "is_execute e = False"

fun is_transform :: "('drv, 'srv, 'cm, 'snap) event \<Rightarrow> bool" where
  "is_transform (TransformSync b) = True"
| "is_transform e = False"

fun is_merge :: "('drv, 'srv, 'cm, 'snap) event \<Rightarrow> bool" where
  "is_merge (CoverageMerge m c) = True"
| "is_merge e = False"

fun is_add_all :: "('drv, 'srv, 'cm, 'snap) event \<Rightarrow> bool" where
  "is_add_all (ReporterAddAll fs) = True"
| "is_add_all e = False"

fun is_super_teardown :: "('drv, 'srv, 'cm, 'snap) event \<Rightarrow> bool" where
  "is_super_teardown (SuperTeardown d) = True"
| "is_super_teardown e = False"

fun is_server_stop :: "('drv, 'srv, 'cm, 'snap) event \<Rightarrow> bool" where
  "is_server_stop (ServerStop srv) = True"
| "is_server_stop e = False"

section \<open>The coverage map\<close>

text \<open>
  Modelled from the spec: \<^verbatim>\<open>coverageMap.merge\<close> (line 116) and
  \<^verbatim>\<open>createCoverageMap({})\<close> (line 21) belong to the library
  \<^verbatim>\<open>istanbul-lib-coverage\<close>, whose code is not part of the program. The
  specification describes the coverage map as a mapping from source-file identity to
  per-file coverage counters, created empty, and the merge as: per-file counters accumulate,
  hit counts sum, tables are unioned by location key. A file's counters are a table from
  location key to hit count.
\<close>

type_synonym file_counters = "js_string \<rightharpoonup> nat"

type_synonym coverage_map = "js_string \<rightharpoonup> file_counters"

definition empty_coverage_map :: coverage_map where
  "empty_coverage_map = Map.empty"

definition merge_counters :: "file_counters \<Rightarrow> file_counters \<Rightarrow> file_counters" where
  "merge_counters a b =
     (\<lambda>k. case a k of
            None \<Rightarrow> b k
          | Some m \<Rightarrow> (case b k of None \<Rightarrow> Some m | Some n \<Rightarrow> Some (m + n)))"

definition coverage_merge :: "coverage_map \<Rightarrow> coverage_map \<Rightarrow> coverage_map" where
  "coverage_merge cm snapshot =
     (\<lambda>f. case cm f of
            None \<Rightarrow> snapshot f
          | Some a \<Rightarrow>
              (case snapshot f of None \<Rightarrow> Some a | Some b \<Rightarrow> Some (merge_counters a b)))"

text \<open>Every hit count of every file, doubled.\<close>

definition double_counters :: "coverage_map \<Rightarrow> coverage_map" where
  "double_counters cm = (\<lambda>f. map_option (\<lambda>c. (\<lambda>k. map_option (\<lambda>n. 2 * n) (c k))) (cm f))"

section \<open>Concrete collaborators and requests\<close>

text \<open>
  Concrete behaviours at which the theorems below are instantiated. Handles are numbers,
  exceptions are their messages. In \<open>ready_world\<close> every collaborator succeeds; the
  transpiler is the identity and the driver answers container 7 with a snapshot of one file.
\<close>

definition foo_snapshot :: coverage_map where
  "foo_snapshot = [''foo.js'' \<mapsto> [''s0'' \<mapsto> 1, ''f0'' \<mapsto> 2]]"

definition ready_world ::
  "(nat, nat, coverage_map, nat, coverage_map, js_string) collaborators" where
  "ready_world =
     \<lparr>superSetup = (\<lambda>d. (None, Some 1)),
      requireServer = Inr 2,
      stoppable = (\<lambda>srv. None),
      createCoverageMap = Inr empty_coverage_map,
      superTeardown = (\<lambda>d. (None, d)),
      createReporter = None,
      reporterAddAll = (\<lambda>fs. None),
      reporterWrite = (\<lambda>m. None),
      serverStop = (\<lambda>srv. None),
      transformSync = (\<lambda>body. Inr body),
      executeAsyncScript = (\<lambda>d code. Inr (7, foo_snapshot)),
      coverageMerge = (\<lambda>cm s. (None, coverage_merge cm s))\<rparr>"

text \<open>The transpiler rejects the script.\<close>

definition compile_failing_world ::
  "(nat, nat, coverage_map, nat, coverage_map, js_string) collaborators" where
  "compile_failing_world = ready_world\<lparr>transformSync := (\<lambda>body. Inl ''SyntaxError'')\<rparr>"

text \<open>The driver rejects every script: its session is gone, or the call timed out.\<close>

definition session_failing_world ::
  "(nat, nat, coverage_map, nat, coverage_map, js_string) collaborators" where
  "session_failing_world =
     ready_world\<lparr>executeAsyncScript := (\<lambda>d code. Inl ''NoSuchSessionError'')\<rparr>"

text \<open>The reporter fails to write.\<close>

definition report_failing_world ::
  "(nat, nat, coverage_map, nat, coverage_map, js_string) collaborators" where
  "report_failing_world = ready_world\<lparr>reporterWrite := (\<lambda>m. Some ''EACCES'')\<rparr>"

text \<open>The request of the documentation comment of \<^verbatim>\<open>render\<close> (lines 62 to 65).\<close>

definition foo_request :: render_request where
  \<open>foo_request =
     \<lparr>data_code = Some ''<Foo>Hello, world!</Foo>'',
      data_imports = Some [''const Foo = (await import("../foo.js")).default;'']\<rparr>\<close>

definition empty_request :: render_request where
  "empty_request = \<lparr>data_code = Some [], data_imports = Some []\<rparr>"

text \<open>
  An environment after \<^verbatim>\<open>setup\<close> has completed, and one after \<^verbatim>\<open>teardown\<close>
  has completed as well.
\<close>

definition ready_environment :: "(nat, nat, coverage_map, nat) vite_environment" where
  "ready_environment = fst (snd (setup_env ready_world new_environment))"

definition closed_environment :: "(nat, nat, coverage_map, nat) vite_environment" where
  "closed_environment = fst (snd (teardown ready_world ready_environment))"

section \<open>Facts about the synthesizer\<close>

lemma join_Cons: "ys \<noteq> [] \<Longrightarrow> join sep (x # ys) = x @ sep @ join sep ys"
  by (cases ys) simp_all

lemma join_append:
  "xs \<noteq> [] \<Longrightarrow> ys \<noteq> [] \<Longrightarrow> join sep (xs @ ys) = join sep xs @ sep @ join sep ys"
proof (induction sep xs rule: join.induct)
  case (1 sep)
  then show ?case by simp
next
  case (2 sep x)
  then show ?case by (simp add: join_Cons)
next
  case (3 sep x y zs)
  then show ?case by simp
qed

lemma startsWith_iff: "startsWith s p \<longleftrightarrow> (\<exists>rest. s = p @ rest)"
  unfolding startsWith_def
  by (metis append_eq_conv_conj append_take_drop_id)

lemma join_sep_concat: "ms \<noteq> [] \<Longrightarrow> join sep ms @ sep = concat (map (\<lambda>m. m @ sep) ms)"
  by (induction sep ms rule: join.induct) simp_all

lemma join_between:
  assumes "xs \<noteq> []" and "ys \<noteq> []"
  shows "join sep (xs @ ms @ ys) =
         join sep xs @ sep @ concat (map (\<lambda>m. m @ sep) ms) @ join sep ys"
proof (cases "ms = []")
  case True
  then show ?thesis using assms by (simp add: join_append)
next
  case False
  have "join sep (xs @ ms @ ys) = join sep xs @ sep @ join sep (ms @ ys)"
    using assms by (intro join_append) simp_all
  also have "join sep (ms @ ys) = (join sep ms @ sep) @ join sep ys"
    using False assms by (simp add: join_append)
  also have "join sep ms @ sep = concat (map (\<lambda>m. m @ sep) ms)"
    using False by (rule join_sep_concat)
  finally show ?thesis by simp
qed

lemma script_lines_Some:
  "data_imports data = Some imps \<Longrightarrow> data_code data = Some c \<Longrightarrow>
   script_lines data =
     Inr ([line_open, line_react, line_react_dom] @ imps @
          [line_container, line_append, element_line c, line_render, line_close])"
  by (simp add: script_lines_def)

lemma element_lines_differ: "element_invoked c \<noteq> element_direct c"
proof
  assume "element_invoked c = element_direct c"
  then have "length (element_invoked c) = length (element_direct c)" by simp
  then show False by (simp add: element_invoked_def element_direct_def)
qed

lemma synthesize_Some:
  "data_imports data = Some imps \<Longrightarrow> data_code data = Some c \<Longrightarrow>
   synthesize data =
     Inr (join newline ([line_open, line_react, line_react_dom] @ imps @
          [line_container, line_append, element_line c, line_render, line_close]))"
  by (simp add: synthesize_def script_lines_def)

lemma synthesize_Inl_iff:
  "synthesize data = Inl e \<longleftrightarrow>
   e = TypeError \<and> (data_code data = None \<or> data_imports data = None)"
  by (auto simp: synthesize_def script_lines_def split: option.splits)

section \<open>Facts about \<^verbatim>\<open>render\<close> and the environment\<close>

lemma render_transform_events:
  fixes w :: "('drv, 'srv, 'cm, 'cont, 'snap, 'x) collaborators"
  shows "filter is_transform (snd (snd (render w dr cm data))) =
         (case (synthesize data :: 'x error + js_string) of
            Inl e \<Rightarrow> []
          | Inr body \<Rightarrow> [TransformSync body])"
  by (simp add: render_def split: sum.splits option.splits prod.splits)

lemma render_execute_events:
  fixes w :: "('drv, 'srv, 'cm, 'cont, 'snap, 'x) collaborators"
  shows "filter is_execute (snd (snd (render w dr cm data))) =
         (case (synthesize data :: 'x error + js_string) of
            Inl e \<Rightarrow> []
          | Inr body \<Rightarrow>
              (case transformSync w body of
                 Inl x \<Rightarrow> []
               | Inr code \<Rightarrow>
                   (case dr of None \<Rightarrow> [] | Some d \<Rightarrow> [ExecuteAsyncScript d code])))"
  by (simp add: render_def split: sum.splits option.splits prod.splits)

lemma render_not_closed_error: "fst (render w dr cm data) \<noteq> Inl EnvironmentClosedError"
  by (simp add: render_def synthesize_Inl_iff split: sum.splits option.splits prod.splits)

lemma render_no_write: "filter is_write (snd (snd (render w dr cm data))) = []"
  by (simp add: render_def split: sum.splits option.splits prod.splits)

lemma global_render_unfold:
  "global_render w env data =
     (fst (render w (global_driver env) (coverageMap env) data),
      env\<lparr>coverageMap := fst (snd (render w (global_driver env) (coverageMap env) data))\<rparr>,
      snd (snd (render w (global_driver env) (coverageMap env) data)))"
  by (simp add: global_render_def split: prod.splits)

lemma global_render_containers:
  "containers (fst (snd (global_render w env data))) = containers env"
  by (simp add: global_render_unfold)

lemma render_all_Cons:
  "render_all ((w, data) # calls) env =
     (fst (render_all calls (fst (snd (global_render w env data)))),
      snd (snd (global_render w env data)) @
      snd (render_all calls (fst (snd (global_render w env data)))))"
  by (simp split: prod.splits)

lemma render_all_containers: "containers (fst (render_all calls env)) = containers env"
proof (induction calls arbitrary: env)
  case Nil
  then show ?case by simp
next
  case (Cons call calls)
  obtain w data where call: "call = (w, data)" by (cases call)
  have "containers (fst (render_all calls (fst (snd (global_render w env data))))) =
      containers (fst (snd (global_render w env data)))"
    by (rule Cons.IH)
  then show ?case
    by (simp only: call render_all_Cons fst_conv global_render_containers)
qed

lemma render_all_no_write: "filter is_write (snd (render_all calls env)) = []"
proof (induction calls arbitrary: env)
  case Nil
  then show ?case by simp
next
  case (Cons call calls)
  obtain w data where call: "call = (w, data)" by (cases call)
  have "filter is_write (snd (render_all calls (fst (snd (global_render w env data))))) = []"
    by (rule Cons.IH)
  moreover have "filter is_write (snd (snd (global_render w env data))) = []"
    by (simp add: global_render_unfold render_no_write)
  ultimately show ?case
    by (simp only: call render_all_Cons snd_conv filter_append append_Nil)
qed

lemma setup_env_no_write: "filter is_write (snd (snd (setup_env w env))) = []"
  by (simp add: setup_env_def split: sum.splits option.splits prod.splits)

lemma setup_env_Inr:
  "setup_env w env = (Inr (), env', t) \<Longrightarrow>
   containers env' = Some [] \<and> (\<exists>cm. coverageMap env' = Some cm) \<and> (\<exists>srv. server env' = Some srv)"
  by (auto simp: setup_env_def split: sum.splits option.splits prod.splits)

lemma teardown_containers: "containers (fst (snd (teardown w env))) = containers env"
  by (simp add: teardown_def split: sum.splits option.splits prod.splits)

lemma teardown_Inr:
  "teardown w env = (Inr (), env', t) \<Longrightarrow>
   \<exists>srv. server env = Some srv \<and>
     t = [SuperTeardown (global_driver env), CreateReporter, ReporterAddAll report_formats,
          ReporterWrite (coverageMap env), ServerStop srv]"
  by (auto simp: teardown_def split: sum.splits option.splits prod.splits)

lemma merge_counters_self: "merge_counters a a = (\<lambda>k. map_option (\<lambda>n. 2 * n) (a k))"
  by (rule ext) (simp add: merge_counters_def split: option.splits)

lemma coverage_merge_empty: "coverage_merge empty_coverage_map s = s"
  by (rule ext) (simp add: coverage_merge_def empty_coverage_map_def)

lemma coverage_merge_self: "coverage_merge s s = double_counters s"
  by (rule ext)
    (simp add: coverage_merge_def double_counters_def merge_counters_self split: option.splits)

lemma render_failure_before_merge:
  fixes w :: "('drv, 'srv, 'cm, 'cont, 'snap, 'x) collaborators"
  assumes "synthesize data = (Inr body :: 'x error + js_string)"
    and "transformSync w body = Inl x \<or>
         (\<exists>code. transformSync w body = Inr code \<and> executeAsyncScript w d code = Inl x)"
  shows "fst (render w (Some d) cm data) = Inl (Thrown x) \<and>
         fst (snd (render w (Some d) cm data)) = cm \<and>
         filter is_merge (snd (snd (render w (Some d) cm data))) = []"
  using assms by (auto simp: render_def)

lemma render_success:
  fixes w :: "('drv, 'srv, 'cm, 'cont, 'snap, 'x) collaborators"
  assumes "synthesize data = (Inr body :: 'x error + js_string)"
    and "transformSync w body = Inr code"
    and "executeAsyncScript w d code = Inr (c, snap)"
    and "coverageMerge w cm snap = (None, cm')"
  shows "render w (Some d) (Some cm) data =
         (Inr c, Some cm', [TransformSync body, ExecuteAsyncScript d code, CoverageMerge cm snap])"
  using assms by (simp add: render_def)

lemma ready_environment_eq:
  "ready_environment =
     \<lparr>global_driver = Some 1, server = Some 2, coverageMap = Some empty_coverage_map,
      containers = Some []\<rparr>"
  by (simp add: ready_environment_def setup_env_def ready_world_def new_environment_def)

lemma teardown_ready:
  "teardown ready_world ready_environment =
     (Inr (), ready_environment,
      [SuperTeardown (Some 1), CreateReporter, ReporterAddAll report_formats,
       ReporterWrite (Some empty_coverage_map), ServerStop 2])"
  by (simp add: ready_environment_eq teardown_def ready_world_def)

lemma closed_environment_eq: "closed_environment = ready_environment"
  by (simp add: closed_environment_def teardown_ready)

lemma synthesize_foo_request:
  "\<exists>body. synthesize foo_request = (Inr body :: js_string error + js_string)"
  by (simp add: synthesize_def script_lines_def foo_request_def)

lemma lifecycle_unfold:
  "lifecycle ws calls wt env0 =
     (fst (teardown wt (fst (render_all calls (fst (snd (setup_env ws env0)))))),
      fst (snd (teardown wt (fst (render_all calls (fst (snd (setup_env ws env0))))))),
      snd (snd (setup_env ws env0)) @
      snd (render_all calls (fst (snd (setup_env ws env0)))) @
      snd (snd (teardown wt (fst (render_all calls (fst (snd (setup_env ws env0))))))))"
  by (simp add: lifecycle_def split: prod.splits)

section \<open>The claims about the synthesizer\<close>

text \<open>
  C1. For every request whose \<^verbatim>\<open>imports\<close> is a sequence of \<open>N\<close> statements (and
  whose \<^verbatim>\<open>code\<close> is present), the array \<^verbatim>\<open>lines\<close> has \<open>N + 8\<close> entries: the
  opening line and the two library bindings, then exactly the \<open>N\<close> import statements,
  verbatim and in order, then the container-creation statement and the rest. The script
  body is their join: each import statement followed by a newline, between the library
  bindings and the container creation.
\<close>

theorem imports_kept_in_order:
  assumes "data_imports data = Some imps" and "data_code data = Some c"
  shows "\<exists>ls. script_lines data = Inr ls \<and> synthesize data = Inr (join newline ls) \<and>
           length ls = length imps + 8 \<and>
           take 3 ls = [line_open, line_react, line_react_dom] \<and>
           take (length imps) (drop 3 ls) = imps \<and>
           drop (3 + length imps) ls =
             [line_container, line_append, element_line c, line_render, line_close] \<and>
           join newline ls =
             join newline [line_open, line_react, line_react_dom] @ newline @
             concat (map (\<lambda>m. m @ newline) imps) @
             join newline [line_container, line_append, element_line c, line_render, line_close]"
proof -
  let ?hd = "[line_open, line_react, line_react_dom]"
  let ?tl = "[line_container, line_append, element_line c, line_render, line_close]"
  let ?ls = "?hd @ imps @ ?tl"
  have l: "script_lines data = Inr ?ls"
    using assms by (rule script_lines_Some)
  have s: "synthesize data = Inr (join newline ?ls)"
    using assms by (rule synthesize_Some)
  have j: "join newline ?ls =
      join newline ?hd @ newline @ concat (map (\<lambda>m. m @ newline) imps) @ join newline ?tl"
    by (rule join_between) simp_all
  have n: "length ?ls = length imps + 8" by simp
  have t: "take 3 ?ls = ?hd" by simp
  have m: "take (length imps) (drop 3 ?ls) = imps" by simp
  have d: "drop (3 + length imps) ?ls = ?tl" by (simp add: numeral_3_eq_3)
  from l s n t m d j show ?thesis by blast
qed

theorem imports_kept_in_order_witness:
  \<open>data_imports foo_request = Some [''const Foo = (await import("../foo.js")).default;''] \<and>
   data_code foo_request = Some ''<Foo>Hello, world!</Foo>'' \<and>
   (\<exists>ls. script_lines foo_request = (Inr ls :: unit error + js_string list) \<and>
      synthesize foo_request = (Inr (join newline ls) :: unit error + js_string) \<and>
      length ls = 9 \<and>
      take 3 ls = [line_open, line_react, line_react_dom] \<and>
      take 1 (drop 3 ls) = [''const Foo = (await import("../foo.js")).default;''] \<and>
      drop 4 ls =
        [line_container, line_append, ''const element = <Foo>Hello, world!</Foo>;'',
         line_render, line_close])\<close>
proof -
  have i: \<open>data_imports foo_request = Some [''const Foo = (await import("../foo.js")).default;'']\<close>
    by (simp add: foo_request_def)
  have c: "data_code foo_request = Some ''<Foo>Hello, world!</Foo>''"
    by (simp add: foo_request_def)
  have e: "element_line ''<Foo>Hello, world!</Foo>'' = ''const element = <Foo>Hello, world!</Foo>;''"
    by (simp add: element_line_def startsWith_def thunk_prefix_def element_direct_def)
  from imports_kept_in_order [OF i c, where ?'a = unit and ?'b = unit]
  obtain ls where "script_lines foo_request = (Inr ls :: unit error + js_string list)"
    and "synthesize foo_request = (Inr (join newline ls) :: unit error + js_string)"
    and "length ls = 9" and "take 3 ls = [line_open, line_react, line_react_dom]"
    and \<open>take 1 (drop 3 ls) = [''const Foo = (await import("../foo.js")).default;'']\<close>
    and "drop 4 ls = [line_container, line_append, element_line ''<Foo>Hello, world!</Foo>'',
         line_render, line_close]"
    by auto
  with i c e show ?thesis by auto
qed

text \<open>
  C2. The script body synthesized from a request, which is the text \<^verbatim>\<open>render\<close>
  hands to \<^verbatim>\<open>transformSync\<close>, consists of the opening line, the library bindings,
  the imports and the container statements, then the element statement, then the render
  statement and the closing brace. The element statement wraps \<^verbatim>\<open>code\<close> in an
  invocation \<^verbatim>\<open>(code)()\<close> exactly when the text of \<^verbatim>\<open>code\<close> begins with the
  five characters \<^verbatim>\<open>() =>\<close>, whatever follows them; otherwise the text is used
  directly.
\<close>

theorem thunk_prefix_decides_wrapper:
  fixes w :: "('drv, 'srv, 'cm, 'cont, 'snap, 'x) collaborators"
  assumes "data_imports data = Some imps" and "data_code data = Some c"
  shows "script_lines data =
           (Inr ([line_open, line_react, line_react_dom] @ imps @
                [line_container, line_append, element_line c, line_render, line_close])
            :: 'x error + js_string list) \<and>
         synthesize data =
           (Inr (join newline ([line_open, line_react, line_react_dom] @ imps @
                   [line_container, line_append]) @ newline @
                 element_line c @ newline @ line_render @ newline @ line_close)
            :: 'x error + js_string) \<and>
         filter is_transform (snd (snd (render w dr cm data))) =
           [TransformSync
             (join newline ([line_open, line_react, line_react_dom] @ imps @
                [line_container, line_append]) @ newline @
              element_line c @ newline @ line_render @ newline @ line_close)] \<and>
         element_line c =
           (if \<exists>rest. c = ''() =>'' @ rest then ''const element = ('' @ c @ '')();''
            else ''const element = '' @ c @ '';'') \<and>
         (element_line c = ''const element = ('' @ c @ '')();'') = (\<exists>rest. c = ''() =>'' @ rest) \<and>
         (element_line c = ''const element = '' @ c @ '';'') = (\<nexists>rest. c = ''() =>'' @ rest)"
proof -
  let ?pre = "[line_open, line_react, line_react_dom] @ imps @ [line_container, line_append]"
  let ?body = "join newline ?pre @ newline @ element_line c @ newline @ line_render @
    newline @ line_close"
  have p: "startsWith c thunk_prefix = (\<exists>rest. c = ''() =>'' @ rest)"
    by (simp add: startsWith_iff thunk_prefix_def)
  have i: "element_invoked c = ''const element = ('' @ c @ '')();''"
    by (simp add: element_invoked_def)
  have d: "element_direct c = ''const element = '' @ c @ '';''"
    by (simp add: element_direct_def)
  have e: "element_line c =
      (if \<exists>rest. c = ''() =>'' @ rest then ''const element = ('' @ c @ '')();''
       else ''const element = '' @ c @ '';'')"
    by (simp only: element_line_def p i d)
  have e1: "(element_line c = element_invoked c) = startsWith c thunk_prefix"
    using element_lines_differ [of c] by (auto simp: element_line_def)
  have e2: "(element_line c = element_direct c) = (\<not> startsWith c thunk_prefix)"
    using element_lines_differ [of c] by (auto simp: element_line_def)
  have l: "script_lines data =
      (Inr ([line_open, line_react, line_react_dom] @ imps @
           [line_container, line_append, element_line c, line_render, line_close])
       :: 'x error + js_string list)"
    using assms by (rule script_lines_Some)
  have "join newline (?pre @ [element_line c, line_render, line_close]) =
      join newline ?pre @ newline @ join newline [element_line c, line_render, line_close]"
    by (rule join_append) simp_all
  then have j: "join newline ([line_open, line_react, line_react_dom] @ imps @
      [line_container, line_append, element_line c, line_render, line_close]) = ?body"
    by simp
  have s: "synthesize data = (Inr ?body :: 'x error + js_string)"
    using synthesize_Some [OF assms, where ?'a = 'x] by (simp only: j)
  have t: "filter is_transform (snd (snd (render w dr cm data))) = [TransformSync ?body]"
    by (simp only: render_transform_events s sum.case)
  have f1: "(element_line c = ''const element = ('' @ c @ '')();'') = (\<exists>rest. c = ''() =>'' @ rest)"
    using e1 by (simp only: p i)
  have f2: "(element_line c = ''const element = '' @ c @ '';'') = (\<nexists>rest. c = ''() =>'' @ rest)"
    using e2 by (simp only: p d)
  from l s t e f1 f2 show ?thesis
    by (intro conjI)
qed

theorem thunk_prefix_decides_wrapper_witness:
  "synthesize \<lparr>data_code = Some ''() => <Expr/>'', data_imports = Some []\<rparr> =
     (Inr (join newline [line_open, line_react, line_react_dom, line_container, line_append] @
           newline @ ''const element = (() => <Expr/>)();'' @ newline @ line_render @
           newline @ line_close) :: js_string error + js_string) \<and>
   synthesize \<lparr>data_code = Some ''<Expr/>'', data_imports = Some []\<rparr> =
     (Inr (join newline [line_open, line_react, line_react_dom, line_container, line_append] @
           newline @ ''const element = <Expr/>;'' @ newline @ line_render @
           newline @ line_close) :: js_string error + js_string) \<and>
   synthesize \<lparr>data_code = Some ''() => <A/>, <B/>'', data_imports = Some []\<rparr> =
     (Inr (join newline [line_open, line_react, line_react_dom, line_container, line_append] @
           newline @ ''const element = (() => <A/>, <B/>)();'' @ newline @ line_render @
           newline @ line_close) :: js_string error + js_string) \<and>
   synthesize \<lparr>data_code = Some ''( ) => <Expr/>'', data_imports = Some []\<rparr> =
     (Inr (join newline [line_open, line_react, line_react_dom, line_container, line_append] @
           newline @ ''const element = ( ) => <Expr/>;'' @ newline @ line_render @
           newline @ line_close) :: js_string error + js_string) \<and>
   filter is_transform (snd (snd (render ready_world (Some 1) None
       \<lparr>data_code = Some ''() => <Expr/>'', data_imports = Some []\<rparr>))) =
     [TransformSync
       (join newline [line_open, line_react, line_react_dom, line_container, line_append] @
        newline @ ''const element = (() => <Expr/>)();'' @ newline @ line_render @
        newline @ line_close)]"
proof -
  have r: "data_imports \<lparr>data_code = Some k, data_imports = Some []\<rparr> = Some []"
    "data_code \<lparr>data_code = Some k, data_imports = Some []\<rparr> = Some k" for k
    by simp_all
  have a: "\<exists>rest. ''() => <Expr/>'' = ''() =>'' @ rest" by simp
  have b: "\<nexists>rest. ''<Expr/>'' = ''() =>'' @ rest" by simp
  have c: "\<exists>rest. ''() => <A/>, <B/>'' = ''() =>'' @ rest" by simp
  have d: "\<nexists>rest. ''( ) => <Expr/>'' = ''() =>'' @ rest" by simp
  note t = thunk_prefix_decides_wrapper [OF r, where w = ready_world and dr = "Some 1" and cm = None]
  have ea: "element_line ''() => <Expr/>'' = ''const element = (() => <Expr/>)();''"
    using t [of "''() => <Expr/>''"] a by simp
  have eb: "element_line ''<Expr/>'' = ''const element = <Expr/>;''"
    using t [of "''<Expr/>''"] b by simp
  have ec: "element_line ''() => <A/>, <B/>'' = ''const element = (() => <A/>, <B/>)();''"
    using t [of "''() => <A/>, <B/>''"] c by simp
  have ed: "element_line ''( ) => <Expr/>'' = ''const element = ( ) => <Expr/>;''"
    using t [of "''( ) => <Expr/>''"] d by simp
  have n: "[line_open, line_react, line_react_dom] @ [] @ [line_container, line_append] =
      [line_open, line_react, line_react_dom, line_container, line_append]"
    by simp
  from t [of "''() => <Expr/>''"]
  have sa: "synthesize \<lparr>data_code = Some ''() => <Expr/>'', data_imports = Some []\<rparr> =
      (Inr (join newline ([line_open, line_react, line_react_dom] @ [] @
              [line_container, line_append]) @ newline @
            element_line ''() => <Expr/>'' @ newline @ line_render @ newline @ line_close)
       :: js_string error + js_string)"
    by (elim conjE)
  from t [of "''() => <Expr/>''"]
  have ta: "filter is_transform (snd (snd (render ready_world (Some 1) None
        \<lparr>data_code = Some ''() => <Expr/>'', data_imports = Some []\<rparr>))) =
      [TransformSync
        (join newline ([line_open, line_react, line_react_dom] @ [] @
           [line_container, line_append]) @ newline @
         element_line ''() => <Expr/>'' @ newline @ line_render @ newline @ line_close)]"
    by (elim conjE)
  from t [of "''<Expr/>''"]
  have sb: "synthesize \<lparr>data_code = Some ''<Expr/>'', data_imports = Some []\<rparr> =
      (Inr (join newline ([line_open, line_react, line_react_dom] @ [] @
              [line_container, line_append]) @ newline @
            element_line ''<Expr/>'' @ newline @ line_render @ newline @ line_close)
       :: js_string error + js_string)"
    by (elim conjE)
  from t [of "''() => <A/>, <B/>''"]
  have sc: "synthesize \<lparr>data_code = Some ''() => <A/>, <B/>'', data_imports = Some []\<rparr> =
      (Inr (join newline ([line_open, line_react, line_react_dom] @ [] @
              [line_container, line_append]) @ newline @
            element_line ''() => <A/>, <B/>'' @ newline @ line_render @ newline @ line_close)
       :: js_string error + js_string)"
    by (elim conjE)
  from t [of "''( ) => <Expr/>''"]
  have sd: "synthesize \<lparr>data_code = Some ''( ) => <Expr/>'', data_imports = Some []\<rparr> =
      (Inr (join newline ([line_open, line_react, line_react_dom] @ [] @
              [line_container, line_append]) @ newline @
            element_line ''( ) => <Expr/>'' @ newline @ line_render @ newline @ line_close)
       :: js_string error + js_string)"
    by (elim conjE)
  show ?thesis
    by (simp only: sa sb sc sd ta ea eb ec ed n simp_thms)
qed

text \<open>
  C6, as stated, fails: the synthesizer does not fail on the empty request (empty
  \<^verbatim>\<open>code\<close>, no \<^verbatim>\<open>imports\<close>), and where it does fail, on a request with an
  absent property, the error is the runtime's TypeError and not InvalidRequest.
\<close>

theorem synthesizer_invalid_request_counterexample:
  "(\<exists>body. synthesize empty_request = (Inr body :: unit error + js_string)) \<and>
   synthesize empty_request \<noteq> (Inl InvalidRequest :: unit error + js_string) \<and>
   synthesize \<lparr>data_code = Some ''<Foo/>'', data_imports = None\<rparr> =
     (Inl TypeError :: unit error + js_string) \<and>
   synthesize \<lparr>data_code = None, data_imports = Some []\<rparr> =
     (Inl TypeError :: unit error + js_string)"
  by (simp add: synthesize_def script_lines_def empty_request_def)

text \<open>
  C6, amended. The synthesizer is a function of the request alone: it makes no call to a
  collaborator, and the first call \<^verbatim>\<open>render\<close> makes, if any, is
  \<^verbatim>\<open>transformSync\<close> on the synthesized body. It succeeds exactly on the requests
  whose \<^verbatim>\<open>code\<close> and \<^verbatim>\<open>imports\<close> are both present, the empty request
  included; on every other request it fails with TypeError, and it never fails with
  InvalidRequest.
\<close>

theorem synthesizer_fails_only_on_absent_property:
  fixes e :: "'x error" and w :: "('drv, 'srv, 'cm, 'cont, 'snap, 'x) collaborators"
  shows "((\<exists>body. synthesize data = (Inr body :: 'x error + js_string)) =
            (data_code data \<noteq> None \<and> data_imports data \<noteq> None)) \<and>
         (synthesize data = Inl e) =
            (e = TypeError \<and> (data_code data = None \<or> data_imports data = None)) \<and>
         synthesize data \<noteq> (Inl InvalidRequest :: 'x error + js_string) \<and>
         take 1 (snd (snd (render w dr cm data))) =
           (case (synthesize data :: 'x error + js_string) of
              Inl e' \<Rightarrow> []
            | Inr body \<Rightarrow> [TransformSync body])"
proof -
  have "(\<exists>body. synthesize data = (Inr body :: 'x error + js_string)) =
      (data_code data \<noteq> None \<and> data_imports data \<noteq> None)"
    by (auto simp: synthesize_def script_lines_def split: option.splits)
  moreover have "synthesize data \<noteq> (Inl InvalidRequest :: 'x error + js_string)"
    by (simp add: synthesize_Inl_iff)
  moreover have "take 1 (snd (snd (render w dr cm data))) =
      (case (synthesize data :: 'x error + js_string) of
         Inl e' \<Rightarrow> []
       | Inr body \<Rightarrow> [TransformSync body])"
    by (simp add: render_def split: sum.splits option.splits prod.splits)
  ultimately show ?thesis
    by (simp only: synthesize_Inl_iff simp_thms)
qed

theorem synthesizer_fails_only_on_absent_property_witness:
  "(\<exists>body. synthesize foo_request = (Inr body :: js_string error + js_string)) \<and>
   (\<exists>body. synthesize empty_request = (Inr body :: js_string error + js_string)) \<and>
   synthesize \<lparr>data_code = None, data_imports = Some []\<rparr> =
     (Inl TypeError :: js_string error + js_string) \<and>
   snd (snd (render ready_world (Some 1) (Some empty_coverage_map)
     \<lparr>data_code = None, data_imports = Some []\<rparr>)) = []"
proof -
  have a: "\<exists>body. synthesize foo_request = (Inr body :: js_string error + js_string)"
    using synthesizer_fails_only_on_absent_property
      [of foo_request "TypeError :: js_string error" ready_world None None]
    by (simp add: foo_request_def)
  have b: "\<exists>body. synthesize empty_request = (Inr body :: js_string error + js_string)"
    using synthesizer_fails_only_on_absent_property
      [of empty_request "TypeError :: js_string error" ready_world None None]
    by (simp add: empty_request_def)
  have c: "synthesize \<lparr>data_code = None, data_imports = Some []\<rparr> =
      (Inl TypeError :: js_string error + js_string)"
    using synthesizer_fails_only_on_absent_property
      [of "\<lparr>data_code = None, data_imports = Some []\<rparr>" "TypeError :: js_string error"
        ready_world None None]
    by simp
  have "snd (snd (render ready_world (Some 1) (Some empty_coverage_map)
      \<lparr>data_code = None, data_imports = Some []\<rparr>)) = []"
    by (simp add: render_def c)
  with a b c show ?thesis by (intro conjI)
qed

text \<open>
  C10. Script synthesis is deterministic: two requests with equal \<^verbatim>\<open>code\<close> and equal
  \<^verbatim>\<open>imports\<close> give the same script body, and the text handed to
  \<^verbatim>\<open>transformSync\<close> by two calls of \<^verbatim>\<open>render\<close> is the same whatever the
  driver, the coverage map and the collaborators' behaviour are at each call.
\<close>

theorem synthesis_deterministic:
  fixes w1 w2 :: "('drv, 'srv, 'cm, 'cont, 'snap, 'x) collaborators"
  assumes "data_code d1 = data_code d2" and "data_imports d1 = data_imports d2"
  shows "(synthesize d1 :: 'x error + js_string) = synthesize d2 \<and>
         filter is_transform (snd (snd (render w1 dr1 cm1 d1))) =
         filter is_transform (snd (snd (render w2 dr2 cm2 d2)))"
proof -
  have "(script_lines d1 :: 'x error + js_string list) = script_lines d2"
    by (simp only: script_lines_def assms)
  then have "(synthesize d1 :: 'x error + js_string) = synthesize d2"
    by (simp add: synthesize_def)
  then show ?thesis
    by (simp add: render_transform_events)
qed

theorem synthesis_deterministic_witness:
  "data_code foo_request = data_code (foo_request\<lparr>data_code := Some ''<Foo>Hello, world!</Foo>''\<rparr>) \<and>
   data_imports foo_request =
     data_imports (foo_request\<lparr>data_code := Some ''<Foo>Hello, world!</Foo>''\<rparr>) \<and>
   filter is_transform (snd (snd (render ready_world (Some 1) None foo_request))) =
   filter is_transform
     (snd (snd (render session_failing_world None (Some foo_snapshot)
        (foo_request\<lparr>data_code := Some ''<Foo>Hello, world!</Foo>''\<rparr>))))"
proof -
  have c: "data_code foo_request =
      data_code (foo_request\<lparr>data_code := Some ''<Foo>Hello, world!</Foo>''\<rparr>)"
    by (simp add: foo_request_def)
  have i: "data_imports foo_request =
      data_imports (foo_request\<lparr>data_code := Some ''<Foo>Hello, world!</Foo>''\<rparr>)"
    by simp
  from synthesis_deterministic [OF c i, of ready_world "Some 1" None session_failing_world
      None "Some foo_snapshot"] c i
  show ?thesis by blast
qed

section \<open>The claims about the environment\<close>

text \<open>
  C9. After a completed \<^verbatim>\<open>setup\<close> the registry \<^verbatim>\<open>this.containers\<close> is the
  empty array, and it is still the empty array after any sequence of render calls,
  successful or not: \<^verbatim>\<open>render\<close> never writes the registry (the \<^verbatim>\<open>push\<close> is
  commented out), and neither does \<^verbatim>\<open>teardown\<close>.
\<close>

theorem registry_stays_empty:
  assumes "setup_env ws env0 = (Inr (), env1, t1)"
  shows "containers env1 = Some [] \<and>
         containers (fst (render_all calls env1)) = Some [] \<and>
         containers (fst (snd (global_render w env data))) = containers env \<and>
         containers (fst (snd (teardown wt env))) = containers env"
  using setup_env_Inr [OF assms]
  by (simp add: render_all_containers global_render_containers teardown_containers)

theorem registry_stays_empty_witness:
  "fst (setup_env ready_world new_environment) = Inr () \<and>
   containers (fst (snd (setup_env ready_world new_environment))) = Some [] \<and>
   containers (fst (render_all
       [(ready_world, foo_request), (session_failing_world, foo_request), (ready_world, empty_request)]
       (fst (snd (setup_env ready_world new_environment))))) = Some []"
proof -
  obtain env1 t1 where s: "setup_env ready_world new_environment = (Inr (), env1, t1)"
    by (simp add: setup_env_def ready_world_def)
  from registry_stays_empty [OF s, of
      "[(ready_world, foo_request), (session_failing_world, foo_request), (ready_world, empty_request)]"
      ready_world new_environment foo_request ready_world] s
  show ?thesis by simp
qed

text \<open>
  C5. A render call on an environment with a driver and a coverage map that fails in
  compilation (\<^verbatim>\<open>transformSync\<close> throws) or in remote execution
  (\<^verbatim>\<open>executeAsyncScript\<close> rejects) hands that exception to its caller, never reaches
  \<^verbatim>\<open>merge\<close>, and leaves every field of the environment as it was: the coverage map
  and the driver handle are the ones before the call. A later render call on the same
  environment whose compilation, execution and merge succeed returns the container and
  leaves the coverage map merged with its snapshot.
\<close>

theorem failed_render_leaves_environment:
  fixes w w' :: "('drv, 'srv, 'cm, 'cont, 'snap, 'x) collaborators"
  assumes "global_driver env = Some d" and "coverageMap env = Some cm"
    and "synthesize data = (Inr body :: 'x error + js_string)"
    and "transformSync w body = Inl x \<or>
         (\<exists>code. transformSync w body = Inr code \<and> executeAsyncScript w d code = Inl x)"
    and "synthesize data' = (Inr body' :: 'x error + js_string)"
    and "transformSync w' body' = Inr code'"
    and "executeAsyncScript w' d code' = Inr (c, snap)"
    and "coverageMerge w' cm snap = (None, cm')"
  shows "fst (global_render w env data) = Inl (Thrown x) \<and>
         fst (snd (global_render w env data)) = env \<and>
         filter is_merge (snd (snd (global_render w env data))) = [] \<and>
         global_render w' (fst (snd (global_render w env data))) data' =
           (Inr c, env\<lparr>coverageMap := Some cm'\<rparr>,
            [TransformSync body', ExecuteAsyncScript d code', CoverageMerge cm snap])"
proof -
  have f: "fst (render w (Some d) (Some cm) data) = Inl (Thrown x) \<and>
      fst (snd (render w (Some d) (Some cm) data)) = Some cm \<and>
      filter is_merge (snd (snd (render w (Some d) (Some cm) data))) = []"
    using assms(3,4) by (rule render_failure_before_merge)
  have e: "fst (snd (global_render w env data)) = env"
    using f assms(1,2) by (simp add: global_render_unfold)
  have s: "render w' (Some d) (Some cm) data' =
      (Inr c, Some cm', [TransformSync body', ExecuteAsyncScript d code', CoverageMerge cm snap])"
    using assms(5-8) by (rule render_success)
  have "global_render w' env data' =
      (Inr c, env\<lparr>coverageMap := Some cm'\<rparr>,
       [TransformSync body', ExecuteAsyncScript d code', CoverageMerge cm snap])"
    using s assms(1,2) by (simp add: global_render_def)
  with f e assms(1,2) show ?thesis
    by (simp add: global_render_unfold)
qed

theorem failed_render_leaves_environment_witness:
  "fst (global_render compile_failing_world ready_environment foo_request) =
     Inl (Thrown ''SyntaxError'') \<and>
   fst (snd (global_render compile_failing_world ready_environment foo_request)) =
     ready_environment \<and>
   fst (global_render ready_world
         (fst (snd (global_render compile_failing_world ready_environment foo_request)))
         foo_request) = Inr 7 \<and>
   fst (global_render session_failing_world ready_environment foo_request) =
     Inl (Thrown ''NoSuchSessionError'') \<and>
   fst (snd (global_render session_failing_world ready_environment foo_request)) =
     ready_environment \<and>
   fst (global_render ready_world
         (fst (snd (global_render session_failing_world ready_environment foo_request)))
         foo_request) = Inr 7"
proof -
  obtain body where b: "synthesize foo_request = (Inr body :: js_string error + js_string)"
    using synthesize_foo_request by blast
  have d: "global_driver ready_environment = Some 1"
    and m: "coverageMap ready_environment = Some empty_coverage_map"
    by (simp_all add: ready_environment_eq)
  have c: "transformSync compile_failing_world body = Inl ''SyntaxError'' \<or>
      (\<exists>code. transformSync compile_failing_world body = Inr code \<and>
         executeAsyncScript compile_failing_world 1 code = Inl ''SyntaxError'')"
    by (simp add: compile_failing_world_def ready_world_def)
  have r: "transformSync session_failing_world body = Inl ''NoSuchSessionError'' \<or>
      (\<exists>code. transformSync session_failing_world body = Inr code \<and>
         executeAsyncScript session_failing_world 1 code = Inl ''NoSuchSessionError'')"
    by (simp add: session_failing_world_def ready_world_def)
  have t: "transformSync ready_world body = Inr body"
    and x: "executeAsyncScript ready_world 1 body = Inr (7, foo_snapshot)"
    and g: "coverageMerge ready_world empty_coverage_map foo_snapshot =
        (None, coverage_merge empty_coverage_map foo_snapshot)"
    by (simp_all add: ready_world_def)
  from failed_render_leaves_environment [OF d m b c b t x g]
    failed_render_leaves_environment [OF d m b r b t x g]
  show ?thesis by (elim conjE) (simp only: fst_conv simp_thms)
qed

text \<open>
  C4, as stated, fails. On an environment whose \<^verbatim>\<open>setup\<close> and
  \<^verbatim>\<open>teardown\<close> have both completed, a render call hands the compiled script to the
  driver; when the driver rejects it, the caller gets the driver's exception, not
  EnvironmentClosedError, and when the driver answers, the call succeeds.
\<close>

theorem render_after_teardown_counterexample:
  "fst (teardown ready_world ready_environment) = Inr () \<and>
   fst (global_render session_failing_world closed_environment foo_request) =
     Inl (Thrown ''NoSuchSessionError'') \<and>
   fst (global_render session_failing_world closed_environment foo_request) \<noteq>
     Inl EnvironmentClosedError \<and>
   length (filter is_execute
     (snd (snd (global_render session_failing_world closed_environment foo_request)))) = 1 \<and>
   fst (global_render ready_world closed_environment foo_request) = Inr 7"
proof -
  obtain body where b: "synthesize foo_request = (Inr body :: js_string error + js_string)"
    using synthesize_foo_request by blast
  have d: "global_driver closed_environment = Some 1"
    and m: "coverageMap closed_environment = Some empty_coverage_map"
    by (simp_all add: closed_environment_eq ready_environment_eq)
  have r1: "render session_failing_world (Some 1) (Some empty_coverage_map) foo_request =
      (Inl (Thrown ''NoSuchSessionError''), Some empty_coverage_map,
       [TransformSync body, ExecuteAsyncScript 1 body])"
    by (simp add: render_def b session_failing_world_def ready_world_def)
  have r2: "fst (render ready_world (Some 1) (Some empty_coverage_map) foo_request) = Inr 7"
    by (simp add: render_def b ready_world_def)
  have t: "fst (teardown ready_world ready_environment) = Inr ()"
    by (simp add: teardown_ready)
  have g1: "global_render session_failing_world closed_environment foo_request =
      (Inl (Thrown ''NoSuchSessionError''),
       closed_environment\<lparr>coverageMap := Some empty_coverage_map\<rparr>,
       [TransformSync body, ExecuteAsyncScript 1 body])"
    by (simp only: global_render_def d m r1 prod.case)
  have g2: "fst (global_render ready_world closed_environment foo_request) = Inr 7"
    using r2 by (simp only: global_render_unfold d m fst_conv)
  show ?thesis
    by (simp add: t g1 g2)
qed

text \<open>
  C4, amended. \<^verbatim>\<open>render\<close> makes no check of the environment's lifecycle and never
  fails with EnvironmentClosedError, on any environment, one whose \<^verbatim>\<open>teardown\<close> has
  completed included. The driver's \<^verbatim>\<open>executeAsyncScript\<close> is called, once, exactly
  when the request synthesizes, the script compiles and \<^verbatim>\<open>this.global.driver\<close> is
  defined. The outcome is then: when the driver rejects, the call fails with the driver's
  exception and the environment is unchanged; when the driver answers and
  \<^verbatim>\<open>this.coverageMap\<close> is undefined, the call fails with TypeError and the environment
  is unchanged; when the driver answers and \<^verbatim>\<open>merge\<close> throws, the call fails with
  that exception and the coverage map is as \<^verbatim>\<open>merge\<close> left it; otherwise the call
  returns the container and the coverage map is the merged one. When the request does not
  synthesize, the script does not compile or the driver is undefined, the call fails with
  that error (TypeError for an undefined driver) and the environment is unchanged.
\<close>

theorem render_has_no_lifecycle_check:
  fixes w :: "('drv, 'srv, 'cm, 'cont, 'snap, 'x) collaborators"
  shows "fst (global_render w env data) \<noteq> Inl EnvironmentClosedError \<and>
         filter is_execute (snd (snd (global_render w env data))) =
           (case (synthesize data :: 'x error + js_string) of
              Inl e \<Rightarrow> []
            | Inr body \<Rightarrow>
                (case transformSync w body of
                   Inl x \<Rightarrow> []
                 | Inr code \<Rightarrow>
                     (case global_driver env of
                        None \<Rightarrow> []
                      | Some d \<Rightarrow> [ExecuteAsyncScript d code]))) \<and>
         (global_driver env = Some d \<longrightarrow>
          synthesize data = (Inr body :: 'x error + js_string) \<longrightarrow>
          transformSync w body = Inr code \<longrightarrow>
          global_render w env data =
            (case executeAsyncScript w d code of
               Inl x \<Rightarrow>
                 (Inl (Thrown x), env, [TransformSync body, ExecuteAsyncScript d code])
             | Inr (container, coverage) \<Rightarrow>
                 (case coverageMap env of
                    None \<Rightarrow>
                      (Inl TypeError, env, [TransformSync body, ExecuteAsyncScript d code])
                  | Some m \<Rightarrow>
                      (case coverageMerge w m coverage of
                         (Some x, m') \<Rightarrow>
                           (Inl (Thrown x), env\<lparr>coverageMap := Some m'\<rparr>,
                            [TransformSync body, ExecuteAsyncScript d code,
                             CoverageMerge m coverage])
                       | (None, m') \<Rightarrow>
                           (Inr container, env\<lparr>coverageMap := Some m'\<rparr>,
                            [TransformSync body, ExecuteAsyncScript d code,
                             CoverageMerge m coverage]))))) \<and>
         (synthesize data = (Inl e' :: 'x error + js_string) \<longrightarrow>
          global_render w env data = (Inl e', env, [])) \<and>
         (synthesize data = (Inr body :: 'x error + js_string) \<longrightarrow>
          transformSync w body = Inl x' \<longrightarrow>
          global_render w env data = (Inl (Thrown x'), env, [TransformSync body])) \<and>
         (synthesize data = (Inr body :: 'x error + js_string) \<longrightarrow>
          transformSync w body = Inr code \<longrightarrow> global_driver env = None \<longrightarrow>
          global_render w env data = (Inl TypeError, env, [TransformSync body]))"
proof -
  have a: "fst (global_render w env data) \<noteq> Inl EnvironmentClosedError"
    by (simp add: global_render_unfold render_not_closed_error)
  have b: "filter is_execute (snd (snd (global_render w env data))) =
      (case (synthesize data :: 'x error + js_string) of
         Inl e \<Rightarrow> []
       | Inr body \<Rightarrow>
           (case transformSync w body of
              Inl x \<Rightarrow> []
            | Inr code \<Rightarrow>
                (case global_driver env of
                   None \<Rightarrow> []
                 | Some d \<Rightarrow> [ExecuteAsyncScript d code])))"
    by (simp add: global_render_unfold render_execute_events)
  have c: "global_driver env = Some d \<longrightarrow>
      synthesize data = (Inr body :: 'x error + js_string) \<longrightarrow>
      transformSync w body = Inr code \<longrightarrow>
      global_render w env data =
        (case executeAsyncScript w d code of
           Inl x \<Rightarrow>
             (Inl (Thrown x), env, [TransformSync body, ExecuteAsyncScript d code])
         | Inr (container, coverage) \<Rightarrow>
             (case coverageMap env of
                None \<Rightarrow>
                  (Inl TypeError, env, [TransformSync body, ExecuteAsyncScript d code])
              | Some m \<Rightarrow>
                  (case coverageMerge w m coverage of
                     (Some x, m') \<Rightarrow>
                       (Inl (Thrown x), env\<lparr>coverageMap := Some m'\<rparr>,
                        [TransformSync body, ExecuteAsyncScript d code,
                         CoverageMerge m coverage])
                   | (None, m') \<Rightarrow>
                       (Inr container, env\<lparr>coverageMap := Some m'\<rparr>,
                        [TransformSync body, ExecuteAsyncScript d code,
                         CoverageMerge m coverage]))))"
    by (auto simp: global_render_def render_def split: sum.splits option.splits prod.splits)
  have d: "synthesize data = (Inl e' :: 'x error + js_string) \<longrightarrow>
      global_render w env data = (Inl e', env, [])"
    by (simp add: global_render_def render_def)
  have e: "synthesize data = (Inr body :: 'x error + js_string) \<longrightarrow>
      transformSync w body = Inl x' \<longrightarrow>
      global_render w env data = (Inl (Thrown x'), env, [TransformSync body])"
    by (simp add: global_render_def render_def)
  have f: "synthesize data = (Inr body :: 'x error + js_string) \<longrightarrow>
      transformSync w body = Inr code \<longrightarrow> global_driver env = None \<longrightarrow>
      global_render w env data = (Inl TypeError, env, [TransformSync body])"
    by (simp add: global_render_def render_def)
  from a b c d e f show ?thesis
    by (intro conjI)
qed

theorem render_has_no_lifecycle_check_witness:
  "fst (global_render session_failing_world closed_environment foo_request) \<noteq>
     Inl EnvironmentClosedError \<and>
   global_driver closed_environment = Some 1 \<and>
   (\<exists>body.
      synthesize foo_request = (Inr body :: js_string error + js_string) \<and>
      transformSync session_failing_world body = Inr body \<and>
      filter is_execute
        (snd (snd (global_render session_failing_world closed_environment foo_request))) =
        [ExecuteAsyncScript 1 body] \<and>
      global_render session_failing_world closed_environment foo_request =
        (Inl (Thrown ''NoSuchSessionError''), closed_environment,
         [TransformSync body, ExecuteAsyncScript 1 body]) \<and>
      transformSync ready_world body = Inr body \<and>
      global_render ready_world closed_environment foo_request =
        (Inr 7,
         closed_environment
           \<lparr>coverageMap := Some (coverage_merge empty_coverage_map foo_snapshot)\<rparr>,
         [TransformSync body, ExecuteAsyncScript 1 body,
          CoverageMerge empty_coverage_map foo_snapshot]))"
proof -
  obtain body where b: "synthesize foo_request = (Inr body :: js_string error + js_string)"
    using synthesize_foo_request by blast
  have t: "transformSync session_failing_world body = Inr body"
    by (simp add: session_failing_world_def ready_world_def)
  have t': "transformSync ready_world body = Inr body"
    by (simp add: ready_world_def)
  have d: "global_driver closed_environment = Some 1"
    and m: "coverageMap closed_environment = Some empty_coverage_map"
    by (simp_all add: closed_environment_eq ready_environment_eq)
  have x: "executeAsyncScript session_failing_world 1 body = Inl ''NoSuchSessionError''"
    by (simp add: session_failing_world_def ready_world_def)
  have x': "executeAsyncScript ready_world 1 body = Inr (7, foo_snapshot)"
    and g: "coverageMerge ready_world empty_coverage_map foo_snapshot =
      (None, coverage_merge empty_coverage_map foo_snapshot)"
    by (simp_all add: ready_world_def)
  note s = render_has_no_lifecycle_check
    [of session_failing_world closed_environment foo_request 1 body body]
  note r = render_has_no_lifecycle_check
    [of ready_world closed_environment foo_request 1 body body]
  note s1 = s [THEN conjunct1]
  have s2: "filter is_execute
      (snd (snd (global_render session_failing_world closed_environment foo_request))) =
      [ExecuteAsyncScript 1 body]"
    using s [THEN conjunct2, THEN conjunct1] by (simp only: b t d sum.case option.case)
  have s3: "global_render session_failing_world closed_environment foo_request =
      (Inl (Thrown ''NoSuchSessionError''), closed_environment,
       [TransformSync body, ExecuteAsyncScript 1 body])"
    using s [THEN conjunct2, THEN conjunct2, THEN conjunct1, THEN mp, OF d, THEN mp, OF b,
        THEN mp, OF t]
    by (simp only: x sum.case)
  have r3: "global_render ready_world closed_environment foo_request =
      (Inr 7,
       closed_environment
         \<lparr>coverageMap := Some (coverage_merge empty_coverage_map foo_snapshot)\<rparr>,
       [TransformSync body, ExecuteAsyncScript 1 body,
        CoverageMerge empty_coverage_map foo_snapshot])"
    using r [THEN conjunct2, THEN conjunct2, THEN conjunct1, THEN mp, OF d, THEN mp, OF b,
        THEN mp, OF t']
    by (simp only: x' m g sum.case option.case prod.case)
  from b t s2 s3 t' r3 have "\<exists>body.
      synthesize foo_request = (Inr body :: js_string error + js_string) \<and>
      transformSync session_failing_world body = Inr body \<and>
      filter is_execute
        (snd (snd (global_render session_failing_world closed_environment foo_request))) =
        [ExecuteAsyncScript 1 body] \<and>
      global_render session_failing_world closed_environment foo_request =
        (Inl (Thrown ''NoSuchSessionError''), closed_environment,
         [TransformSync body, ExecuteAsyncScript 1 body]) \<and>
      transformSync ready_world body = Inr body \<and>
      global_render ready_world closed_environment foo_request =
        (Inr 7,
         closed_environment
           \<lparr>coverageMap := Some (coverage_merge empty_coverage_map foo_snapshot)\<rparr>,
         [TransformSync body, ExecuteAsyncScript 1 body,
          CoverageMerge empty_coverage_map foo_snapshot])"
    by (intro exI conjI)
  with s1 d show ?thesis by (intro conjI)
qed

text \<open>
  C7. In a life of an environment (\<^verbatim>\<open>setup\<close>, any render calls,
  \<^verbatim>\<open>teardown\<close>) whose \<^verbatim>\<open>teardown\<close> completes, the calls end with: the inherited
  teardown, which releases the remote session; the creation of one reporter; the
  registration of exactly the formats json, text and lcov; one \<^verbatim>\<open>write\<close> of the
  coverage map as the render calls left it; and the stop of the server. No other call of the
  whole life is a \<^verbatim>\<open>write\<close>: the report sink is called exactly once.
\<close>

theorem teardown_reports_once:
  assumes "lifecycle ws calls wt env0 = (Inr (), env3, t)"
  shows "\<exists>pre env2 srv.
           env2 = fst (render_all calls (fst (snd (setup_env ws env0)))) \<and>
           t = pre @ [SuperTeardown (global_driver env2), CreateReporter,
                      ReporterAddAll [''json'', ''text'', ''lcov''],
                      ReporterWrite (coverageMap env2), ServerStop srv] \<and>
           filter is_write pre = [] \<and>
           filter is_write t = [ReporterWrite (coverageMap env2)] \<and>
           length (filter is_write t) = 1"
proof -
  let ?env1 = "fst (snd (setup_env ws env0))"
  let ?env2 = "fst (render_all calls ?env1)"
  let ?pre = "snd (snd (setup_env ws env0)) @ snd (render_all calls ?env1)"
  from assms have r: "fst (teardown wt ?env2) = Inr ()"
    and t: "t = ?pre @ snd (snd (teardown wt ?env2))"
    by (simp_all add: lifecycle_unfold)
  from r have "teardown wt ?env2 =
      (Inr (), fst (snd (teardown wt ?env2)), snd (snd (teardown wt ?env2)))"
    by (metis prod.collapse)
  then obtain srv where
    td: "snd (snd (teardown wt ?env2)) =
      [SuperTeardown (global_driver ?env2), CreateReporter, ReporterAddAll report_formats,
       ReporterWrite (coverageMap ?env2), ServerStop srv]"
    using teardown_Inr by blast
  have p: "filter is_write ?pre = []"
    by (simp add: setup_env_no_write render_all_no_write)
  have f: "report_formats = [''json'', ''text'', ''lcov'']"
    by (simp add: report_formats_def)
  have t': "t = ?pre @ [SuperTeardown (global_driver ?env2), CreateReporter,
      ReporterAddAll [''json'', ''text'', ''lcov''], ReporterWrite (coverageMap ?env2),
      ServerStop srv]"
    using t td f by simp
  have w: "filter is_write t = [ReporterWrite (coverageMap ?env2)]"
    using p by (simp add: t')
  from t' p w show ?thesis by auto
qed

theorem teardown_reports_once_witness:
  "fst (lifecycle ready_world [(ready_world, foo_request), (ready_world, foo_request)]
         ready_world new_environment) = Inr () \<and>
   (\<exists>pre env2 srv.
      env2 = fst (render_all [(ready_world, foo_request), (ready_world, foo_request)]
               (fst (snd (setup_env ready_world new_environment)))) \<and>
      snd (snd (lifecycle ready_world [(ready_world, foo_request), (ready_world, foo_request)]
         ready_world new_environment)) =
        pre @ [SuperTeardown (global_driver env2), CreateReporter,
               ReporterAddAll [''json'', ''text'', ''lcov''],
               ReporterWrite (coverageMap env2), ServerStop srv] \<and>
      filter is_write pre = [] \<and>
      filter is_write
        (snd (snd (lifecycle ready_world [(ready_world, foo_request), (ready_world, foo_request)]
           ready_world new_environment))) = [ReporterWrite (coverageMap env2)] \<and>
      length (filter is_write
        (snd (snd (lifecycle ready_world [(ready_world, foo_request), (ready_world, foo_request)]
           ready_world new_environment)))) = 1)"
proof -
  let ?calls = "[(ready_world, foo_request), (ready_world, foo_request)]"
  let ?l = "lifecycle ready_world ?calls ready_world new_environment"
  have s: "fst (snd (setup_env ready_world new_environment)) = ready_environment"
    by (simp add: ready_environment_def)
  have "global_driver (fst (render_all ?calls ready_environment)) = Some 1"
    and "server (fst (render_all ?calls ready_environment)) = Some 2"
    by (simp_all add: render_all_Cons global_render_unfold ready_environment_eq)
  then have r: "fst (teardown ready_world (fst (render_all ?calls ready_environment))) = Inr ()"
    by (simp add: teardown_def ready_world_def)
  have f: "fst ?l = Inr ()"
    using r by (simp add: lifecycle_unfold s)
  then have l: "?l = (Inr (), fst (snd ?l), snd (snd ?l))"
    by (metis prod.collapse)
  from f teardown_reports_once [OF l]
  show ?thesis by (rule conjI)
qed

text \<open>
  C8, as stated, fails. When the reporter's \<^verbatim>\<open>write\<close> throws, \<^verbatim>\<open>teardown\<close>
  does not complete: the exception reaches the caller of \<^verbatim>\<open>teardown\<close>, and
  \<^verbatim>\<open>this.server.stop\<close> is never called.
\<close>

theorem report_failure_counterexample:
  "fst (teardown report_failing_world ready_environment) = Inl (Thrown ''EACCES'') \<and>
   fst (teardown report_failing_world ready_environment) \<noteq> Inr () \<and>
   filter is_server_stop (snd (snd (teardown report_failing_world ready_environment))) = [] \<and>
   snd (snd (teardown report_failing_world ready_environment)) =
     [SuperTeardown (Some 1), CreateReporter, ReporterAddAll [''json'', ''text'', ''lcov''],
      ReporterWrite (Some empty_coverage_map)]"
  by (simp add: teardown_def report_failing_world_def ready_world_def ready_environment_eq
      report_formats_def)

text \<open>
  C8, amended. \<^verbatim>\<open>teardown\<close> awaits the inherited teardown, which releases the remote
  session, before it creates the reporter. So when report emission fails (in
  \<^verbatim>\<open>createReporter\<close>, \<^verbatim>\<open>addAll\<close> or \<^verbatim>\<open>write\<close>) after the inherited teardown
  completed, the session has been released already and that release is the first call made;
  the failure is not caught: it reaches the caller of \<^verbatim>\<open>teardown\<close>, and the server is
  not stopped.
\<close>

theorem report_failure_after_session_release:
  assumes "superTeardown w (global_driver env) = (None, d')"
    and "createReporter w = Some x \<or>
         createReporter w = None \<and> reporterAddAll w report_formats = Some x \<or>
         createReporter w = None \<and> reporterAddAll w report_formats = None \<and>
           reporterWrite w (coverageMap env) = Some x"
  shows "\<exists>rest. teardown w env =
           (Inl (Thrown x), env\<lparr>global_driver := d'\<rparr>, SuperTeardown (global_driver env) # rest) \<and>
         filter is_server_stop rest = [] \<and> filter is_super_teardown rest = []"
  using assms by (auto simp: teardown_def)

theorem report_failure_after_session_release_witness:
  "superTeardown report_failing_world (global_driver ready_environment) = (None, Some 1) \<and>
   reporterWrite report_failing_world (coverageMap ready_environment) = Some ''EACCES'' \<and>
   (\<exists>rest. teardown report_failing_world ready_environment =
      (Inl (Thrown ''EACCES''), ready_environment\<lparr>global_driver := Some 1\<rparr>,
       SuperTeardown (global_driver ready_environment) # rest) \<and>
      filter is_server_stop rest = [])"
proof -
  have s: "superTeardown report_failing_world (global_driver ready_environment) = (None, Some 1)"
    by (simp add: report_failing_world_def ready_world_def ready_environment_eq)
  have c: "createReporter report_failing_world = None"
    and a: "reporterAddAll report_failing_world report_formats = None"
    and w: "reporterWrite report_failing_world (coverageMap ready_environment) = Some ''EACCES''"
    by (simp_all add: report_failing_world_def ready_world_def)
  from c a w have h: "createReporter report_failing_world = Some ''EACCES'' \<or>
      createReporter report_failing_world = None \<and>
        reporterAddAll report_failing_world report_formats = Some ''EACCES'' \<or>
      createReporter report_failing_world = None \<and>
        reporterAddAll report_failing_world report_formats = None \<and>
        reporterWrite report_failing_world (coverageMap ready_environment) = Some ''EACCES''"
    by blast
  from report_failure_after_session_release [OF s h] s w
  show ?thesis by blast
qed

section \<open>The claim about the coverage map\<close>

text \<open>
  C3. Merging a snapshot into the empty coverage map gives the snapshot's counters;
  merging the same snapshot a second time gives, for every file, every hit count doubled.
  The merge is therefore not idempotent: a snapshot with a non-zero hit count is changed by
  the second merge.
\<close>

theorem merge_twice_doubles:
  "coverage_merge (coverage_merge empty_coverage_map s) s =
     double_counters (coverage_merge empty_coverage_map s) \<and>
   coverage_merge empty_coverage_map s = s \<and>
   (\<exists>s'. coverage_merge (coverage_merge empty_coverage_map s') s' \<noteq>
          coverage_merge empty_coverage_map s')"
proof -
  have d: "coverage_merge (coverage_merge empty_coverage_map s) s =
      double_counters (coverage_merge empty_coverage_map s)"
    by (simp only: coverage_merge_empty coverage_merge_self)
  have "coverage_merge foo_snapshot foo_snapshot ''foo.js'' \<noteq> foo_snapshot ''foo.js''"
  proof
    assume "coverage_merge foo_snapshot foo_snapshot ''foo.js'' = foo_snapshot ''foo.js''"
    then have "merge_counters [''s0'' \<mapsto> 1, ''f0'' \<mapsto> 2] [''s0'' \<mapsto> 1, ''f0'' \<mapsto> 2] =
        [''s0'' \<mapsto> 1, ''f0'' \<mapsto> 2]"
      by (simp add: coverage_merge_def foo_snapshot_def)
    then have "merge_counters [''s0'' \<mapsto> 1, ''f0'' \<mapsto> 2] [''s0'' \<mapsto> 1, ''f0'' \<mapsto> 2] ''s0'' =
        [''s0'' \<mapsto> 1, ''f0'' \<mapsto> (2::nat)] ''s0''"
      by (rule arg_cong)
    then show False by (simp add: merge_counters_def)
  qed
  then have "coverage_merge foo_snapshot foo_snapshot \<noteq> foo_snapshot"
    by (metis (no_types))
  then have "\<exists>s'. coverage_merge (coverage_merge empty_coverage_map s') s' \<noteq>
      coverage_merge empty_coverage_map s'"
    by (simp only: coverage_merge_empty) (rule exI)
  with d show ?thesis
    by (simp only: coverage_merge_empty simp_thms)
qed

theorem merge_twice_doubles_witness:
  "\<exists>once twice.
     coverage_merge empty_coverage_map foo_snapshot ''foo.js'' = Some once \<and>
     once ''s0'' = Some 1 \<and> once ''f0'' = Some 2 \<and>
     coverage_merge (coverage_merge empty_coverage_map foo_snapshot) foo_snapshot ''foo.js'' =
       Some twice \<and>
     twice ''s0'' = Some 2 \<and> twice ''f0'' = Some 4"
proof -
  note h = merge_twice_doubles [of foo_snapshot]
  from h have o: "coverage_merge empty_coverage_map foo_snapshot = foo_snapshot"
    by (elim conjE)
  from h have "coverage_merge (coverage_merge empty_coverage_map foo_snapshot) foo_snapshot =
      double_counters (coverage_merge empty_coverage_map foo_snapshot)"
    by (elim conjE)
  then have d: "coverage_merge (coverage_merge empty_coverage_map foo_snapshot) foo_snapshot =
      double_counters foo_snapshot"
    by (simp only: o)
  have once: "coverage_merge empty_coverage_map foo_snapshot ''foo.js'' =
      Some [''s0'' \<mapsto> 1, ''f0'' \<mapsto> 2]"
    by (simp only: o) (simp add: foo_snapshot_def)
  have twice:
    "coverage_merge (coverage_merge empty_coverage_map foo_snapshot) foo_snapshot ''foo.js'' =
      Some (\<lambda>k. map_option (\<lambda>n. 2 * n) ([''s0'' \<mapsto> 1, ''f0'' \<mapsto> 2] k))"
    by (simp only: d) (simp add: double_counters_def foo_snapshot_def)
  show ?thesis
    by (simp add: once twice)
qed

end
